theory Spec2Isabelle
  imports Complex_Main "HOL-Library.Word"
begin

section \<open>Single-precision numbers\<close>

text \<open>
  \<^verbatim>\<open>Cubey.cpp\<close> keeps the two rotation angles and their speeds in C++ \<^verbatim>\<open>float\<close>
  variables (IEEE 754 binary32, round to nearest, ties to even). Every finite binary32
  value is an integer multiple of \<open>2 powi -149\<close>, the smallest positive one, so a finite
  value is stored as that integer: \<open>Finite n\<close> stands for \<open>n * 2 powi -149\<close>. The sign of
  zero is not kept: no comparison and no sum in the program tells \<open>-0\<close> from \<open>+0\<close>.
\<close>

datatype float = Finite int | PlusInf | MinusInf | NaN

text \<open>\<open>dyadic m e\<close> is the literal \<open>m * 2 powi e\<close>, for \<open>e \<ge> -149\<close>: \<open>dyadic 360 0\<close> is
  \<^verbatim>\<open>360.0f\<close> and \<open>dyadic 3 (-1)\<close> is \<^verbatim>\<open>1.5f\<close>.\<close>

definition dyadic :: "int \<Rightarrow> int \<Rightarrow> float" where
  "dyadic m e = Finite (m * 2 ^ nat (e + 149))"

text \<open>
  Rounding an exact result \<open>n\<close> (in units of \<open>2 powi -149\<close>) to binary32. The unit in the
  last place is the smallest power of two \<open>u\<close> in \<open>1, 2, \<dots>, 2 ^ 253\<close> with
  \<open>\<bar>n\<bar> < 2 ^ 24 * u\<close>; \<open>n\<close> is rounded to the nearest multiple of \<open>u\<close>, a tie going to the
  even multiple, and a result of magnitude \<open>2 ^ 277\<close> (that is \<open>2 powi 128\<close>) or more
  overflows to an infinity.
\<close>

fun ulp_search :: "nat \<Rightarrow> int \<Rightarrow> int \<Rightarrow> int option" where
  "ulp_search 0 u a = None"
| "ulp_search (Suc k) u a = (if a < 16777216 * u then Some u else ulp_search k (2 * u) a)"

definition round_even :: "int \<Rightarrow> int \<Rightarrow> int" where
  "round_even n u =
     (let q = n div u; r = n mod u
      in if 2 * r < u then q else if u < 2 * r then q + 1 else if even q then q else q + 1)"

definition round_float :: "int \<Rightarrow> float" where
  "round_float n =
     (let inf = (if 0 < n then PlusInf else MinusInf)
      in case ulp_search 254 1 \<bar>n\<bar> of
           None \<Rightarrow> inf
         | Some u \<Rightarrow> (let y = round_even n u * u in if 2 ^ 277 \<le> \<bar>y\<bar> then inf else Finite y))"


fun fneg :: "float \<Rightarrow> float" where
  "fneg (Finite a) = Finite (- a)"
| "fneg PlusInf = MinusInf"
| "fneg MinusInf = PlusInf"
| "fneg NaN = NaN"

text \<open>The C++ \<^verbatim>\<open>+\<close> on floats: exact sum, then rounding; \<open>\<infinity> + -\<infinity>\<close> is not a number.\<close>

fun fadd :: "float \<Rightarrow> float \<Rightarrow> float" where
  "fadd NaN _ = NaN"
| "fadd _ NaN = NaN"
| "fadd (Finite a) (Finite b) = round_float (a + b)"
| "fadd PlusInf MinusInf = NaN"
| "fadd MinusInf PlusInf = NaN"
| "fadd PlusInf _ = PlusInf"
| "fadd _ PlusInf = PlusInf"
| "fadd MinusInf _ = MinusInf"
| "fadd _ MinusInf = MinusInf"

definition fsub :: "float \<Rightarrow> float \<Rightarrow> float" where
  "fsub a b = fadd a (fneg b)"

text \<open>The C++ comparisons: every comparison with a NaN is false.\<close>

fun flt :: "float \<Rightarrow> float \<Rightarrow> bool" where
  "flt NaN _ = False"
| "flt _ NaN = False"
| "flt (Finite a) (Finite b) = (a < b)"
| "flt MinusInf MinusInf = False"
| "flt MinusInf _ = True"
| "flt _ MinusInf = False"
| "flt PlusInf _ = False"
| "flt _ PlusInf = True"

fun fle :: "float \<Rightarrow> float \<Rightarrow> bool" where
  "fle NaN _ = False"
| "fle _ NaN = False"
| "fle (Finite a) (Finite b) = (a \<le> b)"
| "fle MinusInf _ = True"
| "fle _ PlusInf = True"
| "fle _ MinusInf = False"
| "fle PlusInf _ = False"

definition fgt :: "float \<Rightarrow> float \<Rightarrow> bool" where
  "fgt a b = flt b a"

fun isnan :: "float \<Rightarrow> bool" where
  "isnan NaN = True"
| "isnan _ = False"

fun isfinite :: "float \<Rightarrow> bool" where
  "isfinite (Finite a) = True"
| "isfinite _ = False"


section \<open>Rotation state (\<^verbatim>\<open>processInput\<close> and the update at the top of the render loop)\<close>

text \<open>The five keys \<^verbatim>\<open>processInput\<close> queries with \<^verbatim>\<open>glfwGetKey\<close>; \<open>True\<close> is
  \<^verbatim>\<open>GLFW_PRESS\<close>.\<close>

record keys =
  key_escape :: bool
  key_up :: bool
  key_down :: bool
  key_left :: bool
  key_right :: bool

definition no_keys :: keys where
  "no_keys = \<lparr>key_escape = False, key_up = False, key_down = False,
              key_left = False, key_right = False\<rparr>"

text \<open>
  \<^verbatim>\<open>processInput(window, rotationX, rotationY)\<close>: the window's close flag and the two angles
  passed by reference are returned updated. The five tests are independent \<^verbatim>\<open>if\<close>s, so
  opposite keys held together both apply.
\<close>

definition processInput :: "keys \<Rightarrow> bool \<times> float \<times> float \<Rightarrow> bool \<times> float \<times> float" where
  "processInput k s =
     (case s of (should_close, rotationX, rotationY) \<Rightarrow>
        let should_close = (if key_escape k then True else should_close);
            rotationX = (if key_up k then fsub rotationX (dyadic 2 0) else rotationX);
            rotationX = (if key_down k then fadd rotationX (dyadic 2 0) else rotationX);
            rotationY = (if key_left k then fsub rotationY (dyadic 2 0) else rotationY);
            rotationY = (if key_right k then fadd rotationY (dyadic 2 0) else rotationY)
        in (should_close, rotationX, rotationY))"

text \<open>Lines 342 to 344 of the loop body: \<^verbatim>\<open>processInput\<close>, then both speeds are added.\<close>

definition incremented ::
    "float \<Rightarrow> float \<Rightarrow> keys \<Rightarrow> bool \<times> float \<times> float \<Rightarrow> bool \<times> float \<times> float" where
  "incremented rotationXSpeed rotationYSpeed k s =
     (case processInput k s of (should_close, rotationX, rotationY) \<Rightarrow>
        (should_close, fadd rotationX rotationXSpeed, fadd rotationY rotationYSpeed))"

text \<open>Lines 345 and 346:
  \<^verbatim>\<open>if (rotationX > 360.0f || rotationX < -360.0f) rotationX = 0.0f;\<close>\<close>

definition out_of_range :: "float \<Rightarrow> bool" where
  "out_of_range r = (fgt r (dyadic 360 0) \<or> flt r (dyadic (- 360) 0))"

definition wrap_angle :: "float \<Rightarrow> float" where
  "wrap_angle r = (if out_of_range r then dyadic 0 0 else r)"

text \<open>One rotation update: lines 342 to 346.\<close>

definition advance ::
    "float \<Rightarrow> float \<Rightarrow> keys \<Rightarrow> bool \<times> float \<times> float \<Rightarrow> bool \<times> float \<times> float" where
  "advance rotationXSpeed rotationYSpeed k s =
     (case incremented rotationXSpeed rotationYSpeed k s of (should_close, rotationX, rotationY) \<Rightarrow>
        (should_close, wrap_angle rotationX, wrap_angle rotationY))"

text \<open>The updates of consecutive frames, one key state per frame; the second component
  collects the angles each frame had before its wrap check.\<close>

fun advance_frames ::
    "float \<Rightarrow> float \<Rightarrow> keys list \<Rightarrow> bool \<times> float \<times> float
       \<Rightarrow> (bool \<times> float \<times> float) \<times> (float \<times> float) list" where
  "advance_frames sx sy [] s = (s, [])"
| "advance_frames sx sy (k # ks) s =
     (case advance_frames sx sy ks (advance sx sy k s) of
        (s', pre) \<Rightarrow> (s', snd (incremented sx sy k s) # pre))"


section \<open>Text overlay (\<^verbatim>\<open>renderText\<close>)\<close>

text \<open>\<^verbatim>\<open>stbtt_aligned_quad\<close>: the screen rectangle and the texture rectangle of one glyph.\<close>

record stbtt_aligned_quad =
  x0 :: float
  y0 :: float
  s0 :: float
  t0 :: float
  x1 :: float
  y1 :: float
  s1 :: float
  t1 :: float

text \<open>
  \<^verbatim>\<open>stbtt_GetBakedQuad(chardata, pw, ph, char_index, &xpos, &ypos, &q, opengl_fillrule)\<close>
  belongs to the font library, not to this program, so it is a parameter of the model: from
  the baked table, the atlas size, the glyph index, the pen position and the fill rule it
  gives the quad and the pen position it leaves in \<^verbatim>\<open>*xpos\<close>, \<^verbatim>\<open>*ypos\<close>. The type
  \<open>'cd\<close> is that of the global table \<^verbatim>\<open>charData\<close>.
\<close>

type_synonym 'cd baked_quad =
  "'cd \<Rightarrow> int \<Rightarrow> int \<Rightarrow> int \<Rightarrow> float \<Rightarrow> float \<Rightarrow> int
     \<Rightarrow> stbtt_aligned_quad \<times> float \<times> float"

text \<open>
  The value of a \<^verbatim>\<open>char\<close> of the string in the comparison \<^verbatim>\<open>c >= 32 && c < 128\<close>:
  \<^verbatim>\<open>char\<close> is a signed byte on the usual targets, so the bytes from 128 on are negative.
\<close>

definition char_value :: "char \<Rightarrow> int" where
  "char_value c = (let n = of_char c in if n < 128 then n else n - 256)"

definition in_baked_range :: "char \<Rightarrow> bool" where
  "in_baked_range c = (32 \<le> char_value c \<and> char_value c < 128)"

text \<open>The array \<^verbatim>\<open>float vertices[6][4]\<close> built from a quad: two triangles, each vertex a
  position and a texture coordinate.\<close>

definition quad_vertices :: "stbtt_aligned_quad \<Rightarrow> (float \<times> float \<times> float \<times> float) list" where
  "quad_vertices q =
     [(x0 q, y0 q, s0 q, t0 q),
      (x0 q, y1 q, s0 q, t1 q),
      (x1 q, y1 q, s1 q, t1 q),
      (x0 q, y0 q, s0 q, t0 q),
      (x1 q, y1 q, s1 q, t1 q),
      (x1 q, y0 q, s1 q, t0 q)]"

text \<open>
  The loop \<^verbatim>\<open>for (char c : text)\<close> of \<^verbatim>\<open>renderText\<close>. It returns the vertex arrays in the
  order they are uploaded with \<^verbatim>\<open>glBufferSubData\<close> and drawn with \<^verbatim>\<open>glDrawArrays\<close>, one
  per glyph, and the values the local pen variables \<^verbatim>\<open>x\<close>, \<^verbatim>\<open>y\<close> hold when the loop ends.
\<close>

fun glyph_loop ::
    "'cd baked_quad \<Rightarrow> 'cd \<Rightarrow> string \<Rightarrow> float \<Rightarrow> float
       \<Rightarrow> (float \<times> float \<times> float \<times> float) list list \<times> float \<times> float" where
  "glyph_loop stbtt_GetBakedQuad charData [] x y = ([], x, y)"
| "glyph_loop stbtt_GetBakedQuad charData (c # cs) x y =
     (if in_baked_range c then
        (case stbtt_GetBakedQuad charData 512 512 (char_value c - 32) x y 1 of
           (q, x', y') \<Rightarrow>
             (case glyph_loop stbtt_GetBakedQuad charData cs x' y' of
                (draws, xe, ye) \<Rightarrow> (quad_vertices q # draws, xe, ye)))
      else glyph_loop stbtt_GetBakedQuad charData cs x y)"

text \<open>\<^verbatim>\<open>renderText(text, x, y, scale)\<close>: the body never reads \<^verbatim>\<open>scale\<close>.\<close>

definition renderText ::
    "'cd baked_quad \<Rightarrow> 'cd \<Rightarrow> string \<Rightarrow> float \<Rightarrow> float \<Rightarrow> float
       \<Rightarrow> (float \<times> float \<times> float \<times> float) list list \<times> float \<times> float" where
  "renderText stbtt_GetBakedQuad charData text x y scale =
     glyph_loop stbtt_GetBakedQuad charData text x y"


section \<open>The composite transform (lines 356 to 361)\<close>

text \<open>
  The matrices come from the linear-algebra library \<^verbatim>\<open>glm\<close>, which is not part of this
  program. Its operations are parameters of the model, collected in a record: \<open>'m\<close> is
  the type \<^verbatim>\<open>glm::mat4\<close>, \<open>'v\<close> is \<^verbatim>\<open>glm::vec3\<close> and \<open>'a\<close> the type of an angle in radians.
  \<open>glm_mat4 d\<close> is the constructor \<^verbatim>\<open>glm::mat4(d)\<close> and \<open>glm_mul\<close> the operator \<^verbatim>\<open>*\<close> on
  matrices.
\<close>

record ('m, 'v, 'a) glm =
  glm_mat4 :: "float \<Rightarrow> 'm"
  glm_vec3 :: "float \<Rightarrow> float \<Rightarrow> float \<Rightarrow> 'v"
  glm_radians :: "float \<Rightarrow> 'a"
  glm_rotate :: "'m \<Rightarrow> 'a \<Rightarrow> 'v \<Rightarrow> 'm"
  glm_mul :: "'m \<Rightarrow> 'm \<Rightarrow> 'm"
  glm_ortho :: "float \<Rightarrow> float \<Rightarrow> float \<Rightarrow> float \<Rightarrow> 'm"

text \<open>Lines 356 to 358: \<^verbatim>\<open>model\<close> starts as \<^verbatim>\<open>glm::mat4(1.0f)\<close> and is rotated about the
  x axis by \<^verbatim>\<open>rotationX\<close>, then about the y axis by \<^verbatim>\<open>rotationY\<close>.\<close>

definition model_matrix :: "('m, 'v, 'a) glm \<Rightarrow> float \<Rightarrow> float \<Rightarrow> 'm" where
  "model_matrix g rotationX rotationY =
     (let model = glm_mat4 g (dyadic 1 0);
          model = glm_rotate g model (glm_radians g rotationX)
                    (glm_vec3 g (dyadic 1 0) (dyadic 0 0) (dyadic 0 0));
          model = glm_rotate g model (glm_radians g rotationY)
                    (glm_vec3 g (dyadic 0 0) (dyadic 1 0) (dyadic 0 0))
      in model)"

text \<open>Line 361: \<^verbatim>\<open>glm::mat4 mvp = projection * view * model;\<close> (\<^verbatim>\<open>*\<close> associates to the
  left).\<close>

definition mvp :: "('m, 'v, 'a) glm \<Rightarrow> 'm \<Rightarrow> 'm \<Rightarrow> float \<Rightarrow> float \<Rightarrow> 'm" where
  "mvp g projection view rotationX rotationY =
     glm_mul g (glm_mul g projection view) (model_matrix g rotationX rotationY)"


section \<open>Shader programs (\<^verbatim>\<open>createShaderProgram\<close>)\<close>

text \<open>
  The part of the OpenGL context \<^verbatim>\<open>createShaderProgram\<close> works on: shader and program
  objects under their names, the next unused name, and what has been written to
  \<^verbatim>\<open>std::cerr\<close>. A shader deleted while attached to a program is only flagged for
  deletion (\<^verbatim>\<open>GL_DELETE_STATUS\<close>), as OpenGL specifies.
\<close>

datatype shader_type = GL_VERTEX_SHADER | GL_FRAGMENT_SHADER

record shader_object =
  shader_kind :: shader_type
  shader_source :: string
  compile_status :: bool
  shader_info_log :: string
  delete_status :: bool

record program_object =
  attached :: "nat list"
  link_status :: bool
  program_info_log :: string

record gl_objects =
  shaders :: "nat \<rightharpoonup> shader_object"
  programs :: "nat \<rightharpoonup> program_object"
  next_name :: nat
  cerr :: string

text \<open>What the graphics driver answers: for a stage and its source, whether it compiles
  and the info log; for the attached shaders, whether they link and the info log.\<close>

record driver =
  compiles :: "shader_type \<Rightarrow> string \<Rightarrow> bool \<times> string"
  links :: "shader_object list \<Rightarrow> bool \<times> string"

definition glCreateShader :: "shader_type \<Rightarrow> gl_objects \<Rightarrow> nat \<times> gl_objects" where
  "glCreateShader t s =
     (next_name s,
      s\<lparr>shaders := (shaders s)(next_name s \<mapsto>
             \<lparr>shader_kind = t, shader_source = [], compile_status = False,
              shader_info_log = [], delete_status = False\<rparr>),
        next_name := next_name s + 1\<rparr>)"

definition glShaderSource :: "nat \<Rightarrow> string \<Rightarrow> gl_objects \<Rightarrow> gl_objects" where
  "glShaderSource sh src s =
     (case shaders s sh of
        None \<Rightarrow> s
      | Some ob \<Rightarrow> s\<lparr>shaders := (shaders s)(sh \<mapsto> ob\<lparr>shader_source := src\<rparr>)\<rparr>)"

definition glCompileShader :: "driver \<Rightarrow> nat \<Rightarrow> gl_objects \<Rightarrow> gl_objects" where
  "glCompileShader d sh s =
     (case shaders s sh of
        None \<Rightarrow> s
      | Some ob \<Rightarrow>
          (case compiles d (shader_kind ob) (shader_source ob) of
             (ok, info) \<Rightarrow>
               s\<lparr>shaders := (shaders s)(sh \<mapsto> ob\<lparr>compile_status := ok, shader_info_log := info\<rparr>)\<rparr>))"

definition glGetShaderiv_COMPILE_STATUS :: "nat \<Rightarrow> gl_objects \<Rightarrow> bool" where
  "glGetShaderiv_COMPILE_STATUS sh s =
     (case shaders s sh of None \<Rightarrow> False | Some ob \<Rightarrow> compile_status ob)"

text \<open>\<^verbatim>\<open>glGetShaderInfoLog(shader, maxLength, NULL, infoLog)\<close> stores at most
  \<open>maxLength - 1\<close> characters of the log, and a terminator.\<close>

definition glGetShaderInfoLog :: "nat \<Rightarrow> nat \<Rightarrow> gl_objects \<Rightarrow> string" where
  "glGetShaderInfoLog sh maxLength s =
     (case shaders s sh of None \<Rightarrow> [] | Some ob \<Rightarrow> take (maxLength - 1) (shader_info_log ob))"

definition glCreateProgram :: "gl_objects \<Rightarrow> nat \<times> gl_objects" where
  "glCreateProgram s =
     (next_name s,
      s\<lparr>programs := (programs s)(next_name s \<mapsto>
             \<lparr>attached = [], link_status = False, program_info_log = []\<rparr>),
        next_name := next_name s + 1\<rparr>)"

definition glAttachShader :: "nat \<Rightarrow> nat \<Rightarrow> gl_objects \<Rightarrow> gl_objects" where
  "glAttachShader p sh s =
     (case programs s p of
        None \<Rightarrow> s
      | Some ob \<Rightarrow> s\<lparr>programs := (programs s)(p \<mapsto> ob\<lparr>attached := attached ob @ [sh]\<rparr>)\<rparr>)"

definition glLinkProgram :: "driver \<Rightarrow> nat \<Rightarrow> gl_objects \<Rightarrow> gl_objects" where
  "glLinkProgram d p s =
     (case programs s p of
        None \<Rightarrow> s
      | Some ob \<Rightarrow>
          (case links d (List.map_filter (shaders s) (attached ob)) of
             (ok, info) \<Rightarrow>
               s\<lparr>programs := (programs s)(p \<mapsto> ob\<lparr>link_status := ok, program_info_log := info\<rparr>)\<rparr>))"

definition glGetProgramiv_LINK_STATUS :: "nat \<Rightarrow> gl_objects \<Rightarrow> bool" where
  "glGetProgramiv_LINK_STATUS p s =
     (case programs s p of None \<Rightarrow> False | Some ob \<Rightarrow> link_status ob)"

definition glGetProgramInfoLog :: "nat \<Rightarrow> nat \<Rightarrow> gl_objects \<Rightarrow> string" where
  "glGetProgramInfoLog p maxLength s =
     (case programs s p of None \<Rightarrow> [] | Some ob \<Rightarrow> take (maxLength - 1) (program_info_log ob))"

text \<open>Whether some program object has the shader attached.\<close>

definition is_attached :: "nat \<Rightarrow> gl_objects \<Rightarrow> bool" where
  "is_attached sh s =
     list_ex (\<lambda>p. case programs s p of None \<Rightarrow> False | Some ob \<Rightarrow> sh \<in> set (attached ob))
       [0..<next_name s]"

definition glDeleteShader :: "nat \<Rightarrow> gl_objects \<Rightarrow> gl_objects" where
  "glDeleteShader sh s =
     (case shaders s sh of
        None \<Rightarrow> s
      | Some ob \<Rightarrow>
          if is_attached sh s
          then s\<lparr>shaders := (shaders s)(sh \<mapsto> ob\<lparr>delete_status := True\<rparr>)\<rparr>
          else s\<lparr>shaders := (shaders s)(sh := None)\<rparr>)"

text \<open>\<^verbatim>\<open>std::cerr << \<dots> << std::endl\<close>.\<close>

definition endl :: string where
  "endl = [CHR 0x0A]"

definition print_cerr :: "string \<Rightarrow> gl_objects \<Rightarrow> gl_objects" where
  "print_cerr msg s = s\<lparr>cerr := cerr s @ msg\<rparr>"

text \<open>
  \<^verbatim>\<open>createShaderProgram\<close> is one function of four commented parts; each part is a
  definition here. Part 1, \<^verbatim>\<open>Compile Vertex Shader\<close> (lines 103 to 114):
\<close>

definition compile_vertex_shader :: "driver \<Rightarrow> string \<Rightarrow> gl_objects \<Rightarrow> nat \<times> gl_objects" where
  "compile_vertex_shader d vertexSource s =
     (case glCreateShader GL_VERTEX_SHADER s of (vertexShader, s) \<Rightarrow>
      let s = glShaderSource vertexShader vertexSource s;
          s = glCompileShader d vertexShader s;
          success = glGetShaderiv_COMPILE_STATUS vertexShader s;
          s = (if \<not> success then
                 let infoLog = glGetShaderInfoLog vertexShader 512 s
                 in print_cerr (''ERROR::SHADER::VERTEX::COMPILATION_FAILED'' @ endl @ infoLog @ endl) s
               else s)
      in (vertexShader, s))"

text \<open>Part 2, \<^verbatim>\<open>Compile Fragment Shader\<close> (lines 117 to 126):\<close>

definition compile_fragment_shader :: "driver \<Rightarrow> string \<Rightarrow> gl_objects \<Rightarrow> nat \<times> gl_objects" where
  "compile_fragment_shader d fragmentSource s =
     (case glCreateShader GL_FRAGMENT_SHADER s of (fragmentShader, s) \<Rightarrow>
      let s = glShaderSource fragmentShader fragmentSource s;
          s = glCompileShader d fragmentShader s;
          success = glGetShaderiv_COMPILE_STATUS fragmentShader s;
          s = (if \<not> success then
                 let infoLog = glGetShaderInfoLog fragmentShader 512 s
                 in print_cerr (''ERROR::SHADER::FRAGMENT::COMPILATION_FAILED'' @ endl @ infoLog @ endl) s
               else s)
      in (fragmentShader, s))"

text \<open>Part 3, \<^verbatim>\<open>Link Shaders into a Program\<close> (lines 129 to 139):\<close>

definition link_shaders :: "driver \<Rightarrow> nat \<Rightarrow> nat \<Rightarrow> gl_objects \<Rightarrow> nat \<times> gl_objects" where
  "link_shaders d vertexShader fragmentShader s =
     (case glCreateProgram s of (shaderProgram, s) \<Rightarrow>
      let s = glAttachShader shaderProgram vertexShader s;
          s = glAttachShader shaderProgram fragmentShader s;
          s = glLinkProgram d shaderProgram s;
          success = glGetProgramiv_LINK_STATUS shaderProgram s;
          s = (if \<not> success then
                 let infoLog = glGetProgramInfoLog shaderProgram 512 s
                 in print_cerr (''ERROR::SHADER::PROGRAM::LINKING_FAILED'' @ endl @ infoLog @ endl) s
               else s)
      in (shaderProgram, s))"

text \<open>Part 4, \<^verbatim>\<open>Clean Up\<close> (lines 143 and 144):\<close>

definition clean_up :: "nat \<Rightarrow> nat \<Rightarrow> gl_objects \<Rightarrow> gl_objects" where
  "clean_up vertexShader fragmentShader s =
     (let s = glDeleteShader vertexShader s;
          s = glDeleteShader fragmentShader s
      in s)"

text \<open>The whole function; it returns the program's name.\<close>

definition createShaderProgram ::
    "driver \<Rightarrow> string \<Rightarrow> string \<Rightarrow> gl_objects \<Rightarrow> nat \<times> gl_objects" where
  "createShaderProgram d vertexSource fragmentSource s =
     (case compile_vertex_shader d vertexSource s of (vertexShader, s) \<Rightarrow>
      case compile_fragment_shader d fragmentSource s of (fragmentShader, s) \<Rightarrow>
      case link_shaders d vertexShader fragmentShader s of (shaderProgram, s) \<Rightarrow>
        (shaderProgram, clean_up vertexShader fragmentShader s))"

text \<open>
  Two abbreviations for the statements below: the shader object holding a stage after its
  compilation, and the text a failed step writes to \<^verbatim>\<open>std::cerr\<close> (nothing when the step
  succeeded). The buffer \<^verbatim>\<open>char infoLog[512]\<close> holds the first 511 characters of a log.
\<close>

definition compiled :: "driver \<Rightarrow> shader_type \<Rightarrow> string \<Rightarrow> bool \<Rightarrow> shader_object" where
  "compiled d t src del =
     \<lparr>shader_kind = t, shader_source = src, compile_status = fst (compiles d t src),
      shader_info_log = snd (compiles d t src), delete_status = del\<rparr>"

definition report :: "string \<Rightarrow> bool \<times> string \<Rightarrow> string" where
  "report header r = (if fst r then [] else header @ endl @ take 511 (snd r) @ endl)"


section \<open>Font atlas (\<^verbatim>\<open>loadFont\<close>)\<close>

text \<open>
  How a call of \<^verbatim>\<open>loadFont\<close> can end. It returns; or \<^verbatim>\<open>new unsigned char[size]\<close> throws
  (\<^verbatim>\<open>std::bad_array_new_length\<close> for a negative size, \<^verbatim>\<open>std::bad_alloc\<close> when the memory
  is not to be had), and since neither \<^verbatim>\<open>loadFont\<close> nor \<^verbatim>\<open>main\<close> has a handler the program
  terminates; or the call is one the C++ standard gives no meaning to. The function is
  \<^verbatim>\<open>void\<close> and tests nothing, so there is no other way for it to report a failure.
\<close>

datatype 'a outcome = Returns 'a | Throws | Undefined_behaviour

text \<open>
  What the C library answers for a file that \<^verbatim>\<open>fopen\<close> opens: the value of \<^verbatim>\<open>ftell\<close>
  after the \<^verbatim>\<open>fseek\<close> to the end (the size of a regular file; \<open>-1\<close> for a stream that cannot
  seek, such as a pipe; any value the platform gives for a directory), and the bytes
  \<^verbatim>\<open>fread\<close> then delivers.
\<close>

record opened_file =
  ftell_end :: int
  fread_bytes :: "nat list"

text \<open>
  Line 157: \<^verbatim>\<open>fread(ttfBuffer, 1, size, fontFile)\<close> stores at most \<open>size\<close> bytes at the start
  of the array and leaves the rest as \<^verbatim>\<open>new\<close> gave it; the number read is not looked at.
\<close>

definition fread :: "opened_file \<Rightarrow> int \<Rightarrow> nat list \<Rightarrow> nat list" where
  "fread fontFile sz fresh =
     (let got = take (nat sz) (fread_bytes fontFile) in got @ drop (length got) fresh)"

text \<open>The atlas texture (\<^verbatim>\<open>glTexImage2D\<close> with \<^verbatim>\<open>GL_RED\<close>, then linear filters), and the
  globals \<^verbatim>\<open>loadFont\<close> sets.\<close>

record texture =
  tex_width :: int
  tex_height :: int
  tex_pixels :: "nat list"
  tex_linear :: bool

record 'cd text_globals =
  charData :: 'cd
  fontTexture :: "texture option"
  textVBO_bytes :: "nat option"

text \<open>
  \<^verbatim>\<open>stbtt_BakeFontBitmap(data, offset, pixel_height, pixels, pw, ph, first_char, num_chars,
  chardata)\<close> belongs to the font library and is a parameter. From the font bytes, the
  sizes and the previous table it gives its return value (positive: the first unused row;
  otherwise minus the number of glyphs that fitted), the bitmap and the table.
\<close>

type_synonym 'cd bake_font_bitmap =
  "nat list \<Rightarrow> int \<Rightarrow> float \<Rightarrow> int \<Rightarrow> int \<Rightarrow> int \<Rightarrow> int \<Rightarrow> 'cd \<Rightarrow> int \<times> nat list \<times> 'cd"

text \<open>
  \<^verbatim>\<open>loadFont(fontPath)\<close>, lines 152 to 183. \<open>fopen\<close> maps a path to the file opened there,
  if one can be. \<open>new_array n\<close> is the answer of \<^verbatim>\<open>new unsigned char[n]\<close> for \<open>n \<ge> 0\<close>:
  \<open>None\<close> when it throws, otherwise the bytes the fresh array happens to hold. \<open>sz\<close> is the
  variable \<^verbatim>\<open>size\<close>. Nothing is checked: the result of \<^verbatim>\<open>fopen\<close> goes into \<^verbatim>\<open>fseek\<close>, which
  is undefined for a null pointer; the result of \<^verbatim>\<open>ftell\<close> goes into \<^verbatim>\<open>new\<close>; the value
  \<^verbatim>\<open>stbtt_BakeFontBitmap\<close> returns is dropped. The vertex buffer gets room for
  \<^verbatim>\<open>sizeof(float) * 6 * 4\<close> bytes.
\<close>

definition loadFont ::
    "(string \<rightharpoonup> opened_file) \<Rightarrow> (int \<Rightarrow> nat list option) \<Rightarrow> 'cd bake_font_bitmap \<Rightarrow> string
       \<Rightarrow> 'cd text_globals \<Rightarrow> 'cd text_globals outcome" where
  "loadFont fopen new_array stbtt_BakeFontBitmap fontPath g =
     (case fopen fontPath of
        None \<Rightarrow> Undefined_behaviour
      | Some fontFile \<Rightarrow>
          (let sz = ftell_end fontFile
           in if sz < 0 then Throws
              else case new_array sz of
                     None \<Rightarrow> Throws
                   | Some fresh \<Rightarrow>
                       (let ttfBuffer = fread fontFile sz fresh
                        in case stbtt_BakeFontBitmap ttfBuffer 0 (dyadic 48 0) 512 512 32 96
                                  (charData g) of
                             (ret, fontBitmap, baked) \<Rightarrow>
                               Returns (g\<lparr>charData := baked,
                                          fontTexture :=
                                            Some \<lparr>tex_width = 512, tex_height = 512,
                                                   tex_pixels = fontBitmap, tex_linear = True\<rparr>,
                                          textVBO_bytes := Some (4 * 6 * 4)\<rparr>))))"


section \<open>The render loop (lines 340 to 391)\<close>

text \<open>
  The calls the loop body makes to OpenGL and GLFW, as values. A draw call records
  whether depth testing and blending were enabled when it was issued.
\<close>

datatype capability = GL_DEPTH_TEST | GL_BLEND

datatype program = CubeShaderProgram | TextShaderProgram

datatype key = GLFW_KEY_ESCAPE | GLFW_KEY_UP | GLFW_KEY_DOWN | GLFW_KEY_LEFT | GLFW_KEY_RIGHT

datatype binding = Unbound | CubeVAO | TextVAO | TextVBO | FontTexture

datatype buffer_bit = GL_COLOR_BUFFER_BIT | GL_DEPTH_BUFFER_BIT

datatype 'm call =
    GetKey key
  | SetWindowShouldClose
  | Enable capability
  | Disable capability
  | ClearColor float float float float
  | Clear "buffer_bit list"
  | UseProgram program
  | UniformMatrix4fv program string 'm
  | Uniform3f program string float float float
  | BindVertexArray binding
  | BindBuffer binding
  | BindTexture binding
  | ActiveTexture
  | BufferSubData "(float \<times> float \<times> float \<times> float) list"
  | DrawElements nat bool bool
  | DrawArrays nat bool bool
  | GetFramebufferSize
  | SwapBuffers
  | PollEvents
  | Viewport int int int int

text \<open>The window's close flag, the two capabilities the program switches, and the calls
  issued so far, oldest first.\<close>

record 'm world =
  should_close :: bool
  depth_test :: bool
  blend :: bool
  calls :: "'m call list"




















section \<open>Example inputs\<close>

text \<open>
  A table and a quad function to run the layout on: glyph \<open>i\<close> is as wide as entry \<open>i\<close>
  of the table and 48 high, its quad ends at the pen's height, and the pen moves right by
  the width.
  They stand in for a baked font in the examples only; no property below is about them.
\<close>

definition example_charData :: "int list" where
  "example_charData = map (\<lambda>i. 10 + int i mod 7) [0..<96]"

definition example_GetBakedQuad :: "(int list) baked_quad" where
  "example_GetBakedQuad cd pw ph i x y fill =
     (let w = dyadic (if 0 \<le> i \<and> nat i < length cd then cd ! nat i else 0) 0
      in (\<lparr>x0 = x, y0 = fsub y (dyadic 48 0), s0 = dyadic i 0, t0 = dyadic 0 0,
           x1 = fadd x w, y1 = y, s1 = dyadic (i + 1) 0, t1 = dyadic 1 0\<rparr>,
          fadd x w, y))"

text \<open>
  The library operations over the reals, with matrices as lists of rows:
  \<open>real_rotation\<close> is the rotation about an axis by an angle, and \<open>glm_rotate\<close> multiplies by
  it on the right, as \<^verbatim>\<open>glm::rotate\<close> does.
\<close>

fun valof :: "float \<Rightarrow> real" where
  "valof (Finite n) = real_of_int n / 2 ^ 149"
| "valof _ = 0"

definition dot :: "real list \<Rightarrow> real list \<Rightarrow> real" where
  "dot u v = sum_list (map2 (*) u v)"

definition column :: "real list list \<Rightarrow> nat \<Rightarrow> real list" where
  "column B j = map (\<lambda>row. row ! j) B"

definition real_mul :: "real list list \<Rightarrow> real list list \<Rightarrow> real list list" where
  "real_mul A B =
     map (\<lambda>r. [dot r (column B 0), dot r (column B 1), dot r (column B 2), dot r (column B 3)]) A"

definition real_diag :: "real \<Rightarrow> real list list" where
  "real_diag d = [[d, 0, 0, 0], [0, d, 0, 0], [0, 0, d, 0], [0, 0, 0, d]]"

definition real_rotation :: "real \<Rightarrow> real \<times> real \<times> real \<Rightarrow> real list list" where
  "real_rotation a v =
     (case v of (vx, vy, vz) \<Rightarrow>
        let l = sqrt (vx * vx + vy * vy + vz * vz);
            x = vx / l; y = vy / l; z = vz / l;
            c = cos a; s = sin a; t = 1 - c
        in [[c + t * x * x, t * x * y - s * z, t * x * z + s * y, 0],
            [t * x * y + s * z, c + t * y * y, t * y * z - s * x, 0],
            [t * x * z - s * y, t * y * z + s * x, c + t * z * z, 0],
            [0, 0, 0, 1]])"

definition real_ortho :: "real \<Rightarrow> real \<Rightarrow> real \<Rightarrow> real \<Rightarrow> real list list" where
  "real_ortho l r b t =
     [[2 / (r - l), 0, 0, - (r + l) / (r - l)],
      [0, 2 / (t - b), 0, - (t + b) / (t - b)],
      [0, 0, - 1, 0],
      [0, 0, 0, 1]]"

definition real_glm :: "(real list list, real \<times> real \<times> real, real) glm" where
  "real_glm =
     \<lparr>glm_mat4 = (\<lambda>d. real_diag (valof d)),
      glm_vec3 = (\<lambda>x y z. (valof x, valof y, valof z)),
      glm_radians = (\<lambda>d. valof d * pi / 180),
      glm_rotate = (\<lambda>m a v. real_mul m (real_rotation a v)),
      glm_mul = real_mul,
      glm_ortho = (\<lambda>l r b t. real_ortho (valof l) (valof r) (valof b) (valof t))\<rparr>"

definition example_projection :: "real list list" where
  "example_projection = [[2, 0, 0, 0], [0, 3, 0, 0], [0, 0, - 1, - 1 / 5], [0, 0, - 1, 0]]"

definition example_view :: "real list list" where
  "example_view = [[1, 0, 0, 0], [0, 1, 0, 0], [0, 0, 1, - 3], [0, 0, 0, 1]]"

text \<open>A font file of four bytes, an allocator that serves up to a megabyte, a bake that
  reports that only ten glyphs fitted, and the globals before \<^verbatim>\<open>loadFont\<close>.\<close>

definition example_file :: opened_file where
  "example_file = \<lparr>ftell_end = 4, fread_bytes = [0, 1, 0, 0]\<rparr>"

definition example_fopen :: "string \<rightharpoonup> opened_file" where
  "example_fopen = [''arial.ttf'' \<mapsto> example_file]"

definition example_new_array :: "int \<Rightarrow> nat list option" where
  "example_new_array n = (if n \<le> 1048576 then Some (replicate (nat n) 0) else None)"

definition example_bake :: "(int list) bake_font_bitmap" where
  "example_bake data offset pixel_height pw ph first_char num_chars cd =
     (- 10, replicate (nat (pw * ph)) 0, [10, 11, 12, 13, 14, 15, 16, 10, 11, 12] @ drop 10 cd)"

definition example_globals :: "(int list) text_globals" where
  "example_globals = \<lparr>charData = replicate 96 0, fontTexture = None, textVBO_bytes = None\<rparr>"





section \<open>Properties of the rounding\<close>

text \<open>A value \<open>m * 2 ^ k\<close> with \<open>\<bar>m\<bar> < 2 ^ 24\<close> in the finite range is a binary32 number, and
  rounding leaves it as it is; so sums of small integers and halves are exact.\<close>

lemma ulp_search_bound:
  "a < 16777216 * (u * 2 ^ j) \<Longrightarrow> j < k \<Longrightarrow> \<exists>i\<le>j. ulp_search k u a = Some (u * 2 ^ i)"
proof (induction k arbitrary: u j)
  case 0
  then show ?case by simp
next
  case (Suc k)
  show ?case
  proof (cases "a < 16777216 * u")
    case True
    then have "ulp_search (Suc k) u a = Some (u * 2 ^ 0)" by simp
    then show ?thesis by blast
  next
    case False
    with Suc.prems(1) obtain j' where j: "j = Suc j'"
      by (cases j) auto
    with Suc.prems have "a < 16777216 * ((2 * u) * 2 ^ j')" "j' < k"
      by (simp_all add: mult.assoc)
    from Suc.IH [OF this] obtain i where "i \<le> j'" "ulp_search k (2 * u) a = Some (2 * u * 2 ^ i)"
      by blast
    with False j have "Suc i \<le> j" "ulp_search (Suc k) u a = Some (u * 2 ^ Suc i)"
      by (simp_all add: mult.assoc mult.left_commute)
    then show ?thesis by blast
  qed
qed

lemma round_even_multiple: "0 < u \<Longrightarrow> u dvd n \<Longrightarrow> round_even n u * u = n"
  by (auto simp: round_even_def Let_def)

lemma round_float_exact:
  assumes "\<bar>m\<bar> < 16777216" "k \<le> 253"
  shows "round_float (m * 2 ^ k) = Finite (m * 2 ^ k)"
proof -
  have "\<bar>m * 2 ^ k\<bar> = \<bar>m\<bar> * 2 ^ k"
    by (simp add: abs_mult)
  also have "\<dots> < 16777216 * (1 * 2 ^ k)"
    using assms(1) by simp
  finally obtain i where i: "i \<le> k" "ulp_search 254 1 \<bar>m * 2 ^ k\<bar> = Some (1 * 2 ^ i)"
    using ulp_search_bound [of "\<bar>m * 2 ^ k\<bar>" 1 k 254] assms(2) by auto
  from i(1) have "(2::int) ^ i dvd 2 ^ k"
    by (simp add: le_imp_power_dvd)
  then have "(2::int) ^ i dvd m * 2 ^ k"
    by simp
  then have y: "round_even (m * 2 ^ k) (2 ^ i) * 2 ^ i = m * 2 ^ k"
    by (simp add: round_even_multiple)
  have "\<bar>m\<bar> * 2 ^ k < 16777216 * 2 ^ 253"
  proof -
    have "\<bar>m\<bar> * 2 ^ k \<le> \<bar>m\<bar> * 2 ^ 253"
      using assms(2) by (intro mult_left_mono power_increasing) simp_all
    also have "\<dots> < 16777216 * 2 ^ 253"
      using assms(1) by simp
    finally show ?thesis .
  qed
  then have "\<not> 2 ^ 277 \<le> \<bar>m * 2 ^ k\<bar>"
    by (simp add: abs_mult)
  with i(2) y show ?thesis
    by (simp add: round_float_def Let_def)
qed

lemma fadd_dyadic:
  assumes "\<bar>a + b\<bar> < 16777216" "- 149 \<le> e" "e \<le> 104"
  shows "fadd (dyadic a e) (dyadic b e) = dyadic (a + b) e"
proof -
  have "nat (e + 149) \<le> 253"
    using assms(2,3) by simp
  from round_float_exact [OF assms(1) this] show ?thesis
    by (simp add: dyadic_def distrib_right)
qed

lemma fsub_dyadic:
  assumes "\<bar>a - b\<bar> < 16777216" "- 149 \<le> e" "e \<le> 104"
  shows "fsub (dyadic a e) (dyadic b e) = dyadic (a - b) e"
proof -
  have "fneg (dyadic b e) = dyadic (- b) e"
    by (simp add: dyadic_def)
  with fadd_dyadic [of a "- b" e] assms show ?thesis
    by (simp add: fsub_def)
qed

lemma out_of_range_dyadic: "out_of_range (dyadic m 0) \<longleftrightarrow> 360 < m \<or> m < - 360"
  by (simp add: out_of_range_def fgt_def dyadic_def)

section \<open>Properties of the rotation update\<close>

lemma round_float_not_NaN: "\<not> isnan (round_float n)"
  by (simp add: round_float_def Let_def split: option.split)

lemma fadd_finite_not_NaN: "\<not> isnan a \<Longrightarrow> isfinite b \<Longrightarrow> \<not> isnan (fadd a b)"
  by (cases a; cases b) (simp_all add: round_float_not_NaN)

lemma fsub_finite_not_NaN: "\<not> isnan a \<Longrightarrow> isfinite b \<Longrightarrow> \<not> isnan (fsub a b)"
  by (cases b) (simp_all add: fsub_def fadd_finite_not_NaN)

lemma isfinite_dyadic: "isfinite (dyadic m e)"
  by (simp add: dyadic_def)

lemma flt_irrefl: "\<not> flt a a"
  by (cases a) simp_all

lemma advance_angles:
  "fst (snd (advance sx sy k s)) = wrap_angle (fst (snd (incremented sx sy k s)))"
  "snd (snd (advance sx sy k s)) = wrap_angle (snd (snd (incremented sx sy k s)))"
  by (simp_all add: advance_def split: prod.splits)

lemma wrap_angle_closed_range:
  "\<not> isnan r \<Longrightarrow> fle (dyadic (- 360) 0) (wrap_angle r) \<and> fle (wrap_angle r) (dyadic 360 0)"
  by (cases r) (auto simp: wrap_angle_def out_of_range_def fgt_def dyadic_def)

lemma processInput_not_NaN:
  assumes "\<not> isnan rx" "\<not> isnan ry" and "processInput k (c, rx, ry) = (c', rx', ry')"
  shows "\<not> isnan rx' \<and> \<not> isnan ry'"
proof -
  let ?px = "if key_up k then fsub rx (dyadic 2 0) else rx"
  let ?py = "if key_left k then fsub ry (dyadic 2 0) else ry"
  have px: "\<not> isnan ?px" and py: "\<not> isnan ?py"
    using assms(1,2) by (simp_all add: fsub_finite_not_NaN isfinite_dyadic)
  from assms(3) have "rx' = (if key_down k then fadd ?px (dyadic 2 0) else ?px)"
    and "ry' = (if key_right k then fadd ?py (dyadic 2 0) else ?py)"
    by (simp_all add: processInput_def Let_def)
  with px py show ?thesis
    by (simp add: fadd_finite_not_NaN isfinite_dyadic)
qed

lemma incremented_not_NaN:
  assumes "\<not> isnan rx" "\<not> isnan ry" and "isfinite sx" "isfinite sy"
    and "incremented sx sy k (c, rx, ry) = (c', rx', ry')"
  shows "\<not> isnan rx' \<and> \<not> isnan ry'"
proof -
  obtain c1 px py where p: "processInput k (c, rx, ry) = (c1, px, py)"
    by (cases "processInput k (c, rx, ry)") auto
  from processInput_not_NaN [OF assms(1,2) p] have "\<not> isnan px" "\<not> isnan py" by simp_all
  moreover from assms(5) p have "rx' = fadd px sx" "ry' = fadd py sy"
    by (simp_all add: incremented_def)
  ultimately show ?thesis using assms(3,4) by (simp add: fadd_finite_not_NaN)
qed

text \<open>
  C1, as the code has it. The wrap test is \<^verbatim>\<open>rotationX > 360.0f || rotationX < -360.0f\<close>,
  strict on both sides, so the angles of a frame end in the closed range: for every
  rotation update (any key state) from angles that are numbers, with finite speeds, the
  resulting \<open>rotationX\<close> and \<open>rotationY\<close> each satisfy \<open>-360 \<le> angle \<le> 360\<close>. They are
  numbers again, so this holds for every frame of a run that starts from numbers, as the
  program does (both angles start at 0, and the speeds are drawn from 0.1 to 2.0).
\<close>

theorem rotation_update_closed_range:
  assumes "\<not> isnan rx" "\<not> isnan ry" and "isfinite sx" "isfinite sy"
    and "advance sx sy k (c, rx, ry) = (c', rx', ry')"
  shows "fle (dyadic (- 360) 0) rx' \<and> fle rx' (dyadic 360 0) \<and>
         fle (dyadic (- 360) 0) ry' \<and> fle ry' (dyadic 360 0) \<and>
         \<not> isnan rx' \<and> \<not> isnan ry'"
proof -
  obtain c1 ix iy where i: "incremented sx sy k (c, rx, ry) = (c1, ix, iy)"
    by (cases "incremented sx sy k (c, rx, ry)") auto
  from incremented_not_NaN [OF assms(1-4) i] have n: "\<not> isnan ix" "\<not> isnan iy"
    by simp_all
  from assms(5) i have w: "rx' = wrap_angle ix" "ry' = wrap_angle iy"
    by (simp_all add: advance_def)
  have "\<not> isnan (wrap_angle ix)" "\<not> isnan (wrap_angle iy)"
    using n by (simp_all add: wrap_angle_def dyadic_def)
  with w wrap_angle_closed_range [OF n(1)] wrap_angle_closed_range [OF n(2)]
  show ?thesis by simp
qed

lemma advance_up_from_minus_359:
  "advance (dyadic 1 0) (dyadic 1 0) (no_keys\<lparr>key_up := True\<rparr>)
     (False, dyadic (- 359) 0, dyadic 0 0) = (False, dyadic (- 360) 0, dyadic 1 0)"
  by code_simp

theorem rotation_update_closed_range_witness:
  "\<not> isnan (dyadic (- 359) 0) \<and> \<not> isnan (dyadic 0 0) \<and> isfinite (dyadic 1 0) \<and>
   advance (dyadic 1 0) (dyadic 1 0) (no_keys\<lparr>key_up := True\<rparr>)
     (False, dyadic (- 359) 0, dyadic 0 0) = (False, dyadic (- 360) 0, dyadic 1 0) \<and>
   fle (dyadic (- 360) 0) (dyadic (- 360) 0) \<and> fle (dyadic (- 360) 0) (dyadic 360 0) \<and>
   fle (dyadic (- 360) 0) (dyadic 1 0) \<and> fle (dyadic 1 0) (dyadic 360 0)"
proof -
  have a: "\<not> isnan (dyadic (- 359) 0)" and b: "\<not> isnan (dyadic 0 0)"
    and s: "isfinite (dyadic 1 0)"
    by (simp_all add: dyadic_def)
  from rotation_update_closed_range [OF a b s s advance_up_from_minus_359]
  show ?thesis using a b s advance_up_from_minus_359 by simp
qed

text \<open>How the angle gets to \<open>-360\<close>: with the up key held and a speed of 1 degree per frame,
  every frame takes 1 from \<open>rotationX\<close> (2 off, then 1 on) and adds 1 to \<open>rotationY\<close>.\<close>

lemma advance_up_step:
  assumes "0 \<le> n" "n < 360"
  shows "advance (dyadic 1 0) (dyadic 1 0) (no_keys\<lparr>key_up := True\<rparr>)
           (False, dyadic (- n) 0, dyadic n 0) = (False, dyadic (- (n + 1)) 0, dyadic (n + 1) 0)"
proof -
  have "fsub (dyadic (- n) 0) (dyadic 2 0) = dyadic (- n - 2) 0"
    by (rule fsub_dyadic) (use assms in simp_all)
  moreover have "fadd (dyadic (- n - 2) 0) (dyadic 1 0) = dyadic (- n - 2 + 1) 0"
    by (rule fadd_dyadic) (use assms in simp_all)
  moreover have "- n - 2 + 1 = - (n + 1)"
    by simp
  moreover have "fadd (dyadic n 0) (dyadic 1 0) = dyadic (n + 1) 0"
    by (rule fadd_dyadic) (use assms in simp_all)
  moreover have "\<not> out_of_range (dyadic (- (n + 1)) 0)" "\<not> out_of_range (dyadic (n + 1) 0)"
    using assms by (simp_all only: out_of_range_dyadic) simp_all
  ultimately show ?thesis
    by (simp add: advance_def incremented_def processInput_def no_keys_def wrap_angle_def)
qed

lemma fst_advance_frames_Cons:
  "fst (advance_frames sx sy (k # ks) s) = fst (advance_frames sx sy ks (advance sx sy k s))"
  by (simp split: prod.splits)

lemma advance_frames_up:
  "m + int n \<le> 360 \<Longrightarrow> 0 \<le> m \<Longrightarrow>
   fst (advance_frames (dyadic 1 0) (dyadic 1 0) (replicate n (no_keys\<lparr>key_up := True\<rparr>))
          (False, dyadic (- m) 0, dyadic m 0))
     = (False, dyadic (- (m + int n)) 0, dyadic (m + int n) 0)"
proof (induction n arbitrary: m)
  case 0
  then show ?case by simp
next
  case (Suc n)
  then have m: "0 \<le> m" "m < 360" and m1: "m + 1 + int n \<le> 360" "0 \<le> m + 1"
    by simp_all
  have e: "m + int (Suc n) = m + 1 + int n"
    by simp
  show ?case
    by (simp only: replicate_Suc fst_advance_frames_Cons advance_up_step [OF m] Suc.IH [OF m1] e)
qed

lemma minus_360_reachable:
  "fst (advance_frames (dyadic 1 0) (dyadic 1 0) (replicate 360 (no_keys\<lparr>key_up := True\<rparr>))
          (False, dyadic 0 0, dyadic 0 0)) = (False, dyadic (- 360) 0, dyadic 360 0)"
  using advance_frames_up [of 0 360] by simp

text \<open>
  C1 as stated asks for \<open>-360 < angle\<close>. From the start of the loop (both angles 0), with
  speeds of 1 degree per frame and the up key held, 359 frames lead to \<open>rotationX = -359\<close>;
  the next frame computes \<open>-359 - 2 + 1 = -360\<close>, and \<open>-360 < -360\<close> is false, so no reset
  happens and the frame ends with \<open>rotationX\<close> at exactly \<open>-360\<close>.
\<close>

theorem rotation_update_reaches_minus_360:
  "fst (advance_frames (dyadic 1 0) (dyadic 1 0) (replicate 359 (no_keys\<lparr>key_up := True\<rparr>))
          (False, dyadic 0 0, dyadic 0 0)) = (False, dyadic (- 359) 0, dyadic 359 0) \<and>
   fst (snd (advance (dyadic 1 0) (dyadic 1 0) (no_keys\<lparr>key_up := True\<rparr>)
     (False, dyadic (- 359) 0, dyadic 359 0))) = dyadic (- 360) 0 \<and>
   \<not> flt (dyadic (- 360) 0)
     (fst (snd (advance (dyadic 1 0) (dyadic 1 0) (no_keys\<lparr>key_up := True\<rparr>)
        (False, dyadic (- 359) 0, dyadic 359 0))))"
proof -
  have run: "fst (advance_frames (dyadic 1 0) (dyadic 1 0)
        (replicate 359 (no_keys\<lparr>key_up := True\<rparr>)) (False, dyadic 0 0, dyadic 0 0))
      = (False, dyadic (- 359) 0, dyadic 359 0)"
    using advance_frames_up [of 0 359] by simp
  have step: "advance (dyadic 1 0) (dyadic 1 0) (no_keys\<lparr>key_up := True\<rparr>)
        (False, dyadic (- 359) 0, dyadic 359 0) = (False, dyadic (- 360) 0, dyadic 360 0)"
    using advance_up_step [of 359] by simp
  show ?thesis
    by (simp add: run step flt_irrefl)
qed

text \<open>
  C2. In a frame, an angle that after \<^verbatim>\<open>processInput\<close> and the addition of its speed is
  above 360 or below -360 is set to exactly 0 by that frame. With \<open>rotationX = 359\<close>, a
  speed of 2 and no key held the incremented angle is 361 and the frame leaves
  \<open>rotationX = 0\<close> (not 1, which is 361 modulo 360).
\<close>

theorem wrap_resets_to_zero:
  assumes "incremented sx sy k s = (c, ix, iy)"
  shows "(out_of_range ix \<longrightarrow> fst (snd (advance sx sy k s)) = dyadic 0 0) \<and>
         (out_of_range iy \<longrightarrow> snd (snd (advance sx sy k s)) = dyadic 0 0) \<and>
         fst (snd (incremented (dyadic 2 0) sy no_keys (c0, dyadic 359 0, ry))) = dyadic 361 0 \<and>
         fst (snd (advance (dyadic 2 0) sy no_keys (c0, dyadic 359 0, ry))) = dyadic 0 0 \<and>
         dyadic 0 0 \<noteq> dyadic 1 0"
proof -
  have general: "fst (snd (advance sx sy k s)) = wrap_angle ix"
    "snd (snd (advance sx sy k s)) = wrap_angle iy"
    using assms by (simp_all add: advance_angles)
  have sum: "fadd (dyadic 359 0) (dyadic 2 0) = dyadic 361 0"
    by code_simp
  have inc: "fst (snd (incremented (dyadic 2 0) sy no_keys (c0, dyadic 359 0, ry))) = dyadic 361 0"
    by (simp add: incremented_def processInput_def no_keys_def sum)
  have out: "out_of_range (dyadic 361 0)"
    by (simp add: out_of_range_def fgt_def dyadic_def)
  have adv: "fst (snd (advance (dyadic 2 0) sy no_keys (c0, dyadic 359 0, ry))) = dyadic 0 0"
    using out by (simp add: advance_angles inc wrap_angle_def)
  have "dyadic 0 0 \<noteq> dyadic 1 0"
    by (simp add: dyadic_def)
  with general inc adv show ?thesis
    by (simp add: wrap_angle_def)
qed

lemma incremented_from_359:
  "incremented (dyadic 2 0) (dyadic 1 0) no_keys (False, dyadic 359 0, dyadic 0 0)
     = (False, dyadic 361 0, dyadic 1 0)"
  by code_simp

theorem wrap_resets_to_zero_witness:
  "incremented (dyadic 2 0) (dyadic 1 0) no_keys (False, dyadic 359 0, dyadic 0 0)
     = (False, dyadic 361 0, dyadic 1 0) \<and>
   out_of_range (dyadic 361 0) \<and> \<not> out_of_range (dyadic 1 0) \<and>
   advance (dyadic 2 0) (dyadic 1 0) no_keys (False, dyadic 359 0, dyadic 0 0)
     = (False, dyadic 0 0, dyadic 1 0)"
proof -
  have o: "out_of_range (dyadic 361 0)" "\<not> out_of_range (dyadic 1 0)"
    by (simp_all add: out_of_range_def fgt_def dyadic_def)
  have "advance (dyadic 2 0) (dyadic 1 0) no_keys (False, dyadic 359 0, dyadic 0 0)
     = (False, dyadic 0 0, dyadic 1 0)"
    by code_simp
  with wrap_resets_to_zero [OF incremented_from_359] incremented_from_359 o
  show ?thesis by simp
qed

text \<open>
  C3. From \<open>rotationX = rotationY = 0\<close> with speeds 1.0 and 1.5, ten frames with no key
  held end with \<open>rotationX = 10\<close> and \<open>rotationY = 15\<close> exactly; the angles of the ten
  frames before their wrap checks are \<open>(1, 1.5), (2, 3), \<dots>, (10, 15)\<close>, none of them out
  of range, so no frame resets an angle.
\<close>

theorem ten_frames_no_input:
  "fst (advance_frames (dyadic 1 0) (dyadic 3 (- 1)) (replicate 10 no_keys)
          (False, dyadic 0 0, dyadic 0 0)) = (False, dyadic 10 0, dyadic 15 0) \<and>
   snd (advance_frames (dyadic 1 0) (dyadic 3 (- 1)) (replicate 10 no_keys)
          (False, dyadic 0 0, dyadic 0 0)) =
     [(dyadic 1 0, dyadic 3 (- 1)), (dyadic 2 0, dyadic 3 0), (dyadic 3 0, dyadic 9 (- 1)),
      (dyadic 4 0, dyadic 6 0), (dyadic 5 0, dyadic 15 (- 1)), (dyadic 6 0, dyadic 9 0),
      (dyadic 7 0, dyadic 21 (- 1)), (dyadic 8 0, dyadic 12 0), (dyadic 9 0, dyadic 27 (- 1)),
      (dyadic 10 0, dyadic 15 0)] \<and>
   map (\<lambda>(a, b). out_of_range a \<or> out_of_range b)
     (snd (advance_frames (dyadic 1 0) (dyadic 3 (- 1)) (replicate 10 no_keys)
          (False, dyadic 0 0, dyadic 0 0))) = replicate 10 False"
  by code_simp

section \<open>Properties of the text layout\<close>

text \<open>The range test selects the bytes 32 to 127, whether \<^verbatim>\<open>char\<close> is signed or not.\<close>

lemma in_baked_range_iff:
  "in_baked_range c \<longleftrightarrow> 32 \<le> (of_char c :: nat) \<and> (of_char c :: nat) < 128"
proof -
  define n where "n = (of_char c :: nat)"
  have i: "(of_char c :: int) = int n"
    by (simp add: n_def of_char_def)
  have b: "n < 256"
    by (simp add: n_def of_char_def)
  have "(32 \<le> (if int n < 128 then int n else int n - 256) \<and>
         (if int n < 128 then int n else int n - 256) < 128) \<longleftrightarrow> 32 \<le> n \<and> n < 128"
    using b by auto
  then show ?thesis
    by (simp only: in_baked_range_def char_value_def Let_def i n_def [symmetric])
qed

lemma glyph_loop_skips:
  "\<forall>c \<in> set str. \<not> in_baked_range c \<Longrightarrow> glyph_loop gq cd str x y = ([], x, y)"
  by (induction str) simp_all

lemma glyph_loop_append:
  "glyph_loop gq cd (s @ t) x y =
     (case glyph_loop gq cd s x y of
        (d1, xa, ya) \<Rightarrow>
          (case glyph_loop gq cd t xa ya of (d2, xb, yb) \<Rightarrow> (d1 @ d2, xb, yb)))"
  by (induction s arbitrary: x y) (simp_all split: prod.splits)

lemma glyph_loop_AB:
  "glyph_loop gq cd ''AB'' x y =
     (case gq cd 512 512 33 x y 1 of
        (qa, xa, ya) \<Rightarrow>
          (case gq cd 512 512 34 xa ya 1 of
             (qb, xb, yb) \<Rightarrow> ([quad_vertices qa, quad_vertices qb], xb, yb)))"
  by (simp add: in_baked_range_def char_value_def split: prod.splits)

lemma glyph_loop_A:
  "glyph_loop gq cd ''A'' x y =
     (case gq cd 512 512 33 x y 1 of (qa, xa, ya) \<Rightarrow> ([quad_vertices qa], xa, ya))"
  by (simp add: in_baked_range_def char_value_def split: prod.splits)

lemma glyph_loop_B:
  "glyph_loop gq cd ''B'' x y =
     (case gq cd 512 512 34 x y 1 of (qb, xb, yb) \<Rightarrow> ([quad_vertices qb], xb, yb))"
  by (simp add: in_baked_range_def char_value_def split: prod.splits)

text \<open>
  C4. For every start position, \<^verbatim>\<open>renderText\<close> on the empty string draws no quad; and on
  a text whose bytes all lie outside \<open>[32, 128)\<close> it draws no quad and ends with the pen
  where it started.
\<close>

theorem layout_skips_unbaked:
  "renderText gq cd [] x y scale = ([], x, y) \<and>
   ((\<forall>c \<in> set str. (of_char c :: nat) < 32 \<or> 128 \<le> (of_char c :: nat))
      \<longrightarrow> renderText gq cd str x y scale = ([], x, y))"
proof -
  have "renderText gq cd str x y scale = ([], x, y)"
    if "\<forall>c \<in> set str. (of_char c :: nat) < 32 \<or> 128 \<le> (of_char c :: nat)"
  proof -
    from that have "\<forall>c \<in> set str. \<not> in_baked_range c"
      by (auto simp: in_baked_range_iff)
    then show ?thesis
      by (simp add: renderText_def glyph_loop_skips)
  qed
  then show ?thesis
    by (simp add: renderText_def)
qed

theorem layout_skips_unbaked_witness:
  "list_all (\<lambda>c. (of_char c :: nat) < 32 \<or> 128 \<le> (of_char c :: nat))
     [CHR 0x0A, CHR 0x1F, CHR 0x80, CHR 0xC3, CHR 0xFF] \<and>
   renderText example_GetBakedQuad example_charData [CHR 0x0A, CHR 0x1F, CHR 0x80, CHR 0xC3, CHR 0xFF]
     (dyadic 25 0) (dyadic 50 0) (dyadic 1 0) = ([], dyadic 25 0, dyadic 50 0)"
proof -
  have h: "\<forall>c \<in> set [CHR 0x0A, CHR 0x1F, CHR 0x80, CHR 0xC3, CHR 0xFF].
      (of_char c :: nat) < 32 \<or> 128 \<le> (of_char c :: nat)"
    by simp
  from layout_skips_unbaked [of example_GetBakedQuad example_charData
      "dyadic 25 0" "dyadic 50 0" "dyadic 1 0" "[CHR 0x0A, CHR 0x1F, CHR 0x80, CHR 0xC3, CHR 0xFF]"] h
  show ?thesis by simp
qed

text \<open>
  C5. The pen advance is additive. Laying out \<open>s @ t\<close> draws what laying out \<open>s\<close> draws,
  followed by what laying out \<open>t\<close> draws from the pen position at which \<open>s\<close> ended, and
  ends with the same pen. For \<open>''AB''\<close>: two quads are drawn, and the second (its origin
  \<open>x0, y0\<close> is the first vertex of the array) is the quad that \<open>''B''\<close> alone gives from the
  pen position left by \<open>''A''\<close>.
\<close>

theorem pen_advance_additive:
  "renderText gq cd (s @ t) x y scale =
     (case renderText gq cd s x y scale of
        (d1, xa, ya) \<Rightarrow>
          (case renderText gq cd t xa ya scale of (d2, xb, yb) \<Rightarrow> (d1 @ d2, xb, yb))) \<and>
   length (fst (renderText gq cd ''AB'' x y scale)) = 2 \<and>
   (case renderText gq cd ''A'' x y scale of
      (d1, xa, ya) \<Rightarrow>
        fst (renderText gq cd ''AB'' x y scale) ! 1 = fst (renderText gq cd ''B'' xa ya scale) ! 0)"
proof -
  have "length (fst (glyph_loop gq cd ''AB'' x y)) = 2"
    by (simp only: glyph_loop_AB split: prod.splits) simp
  moreover have "(case glyph_loop gq cd ''A'' x y of
      (d1, xa, ya) \<Rightarrow>
        fst (glyph_loop gq cd ''AB'' x y) ! 1 = fst (glyph_loop gq cd ''B'' xa ya) ! 0)"
    by (simp only: glyph_loop_AB glyph_loop_A glyph_loop_B split: prod.splits) simp
  ultimately show ?thesis
    by (simp add: renderText_def glyph_loop_append)
qed

text \<open>
  C10. The \<^verbatim>\<open>scale\<close> parameter of \<^verbatim>\<open>renderText\<close> has no effect: for every text and
  start position, any two scales give the same vertex arrays (positions and texture
  coordinates) and the same final pen.
\<close>

theorem scale_has_no_effect:
  "renderText gq cd str x y scale1 = renderText gq cd str x y scale2"
  by (simp add: renderText_def)


section \<open>Properties of the composite transform\<close>

text \<open>
  C6. For every projection \<open>P\<close>, view \<open>V\<close> and pair of angles, the matrix sent to the cube
  shader is \<open>P * V * model\<close>, where \<open>model\<close> is the identity rotated about the x axis by
  \<open>rotationX\<close> and then about the y axis by \<open>rotationY\<close>. With both angles 0 it is
  \<open>P * V * Identity\<close>, for a library whose rotation of the identity by the angle
  \<^verbatim>\<open>radians(0.0f)\<close> about the x axis and about the y axis is the identity.
\<close>

theorem mvp_composite:
  "mvp g P V ax ay =
     glm_mul g (glm_mul g P V)
       (glm_rotate g
          (glm_rotate g (glm_mat4 g (dyadic 1 0)) (glm_radians g ax)
             (glm_vec3 g (dyadic 1 0) (dyadic 0 0) (dyadic 0 0)))
          (glm_radians g ay) (glm_vec3 g (dyadic 0 0) (dyadic 1 0) (dyadic 0 0))) \<and>
   (glm_rotate g (glm_mat4 g (dyadic 1 0)) (glm_radians g (dyadic 0 0))
        (glm_vec3 g (dyadic 1 0) (dyadic 0 0) (dyadic 0 0)) = glm_mat4 g (dyadic 1 0) \<and>
    glm_rotate g (glm_mat4 g (dyadic 1 0)) (glm_radians g (dyadic 0 0))
        (glm_vec3 g (dyadic 0 0) (dyadic 1 0) (dyadic 0 0)) = glm_mat4 g (dyadic 1 0)
    \<longrightarrow> mvp g P V (dyadic 0 0) (dyadic 0 0) = glm_mul g (glm_mul g P V) (glm_mat4 g (dyadic 1 0)))"
  by (simp add: mvp_def model_matrix_def)

text \<open>The rotation over the reals is such a library: \<open>cos 0 = 1\<close> and \<open>sin 0 = 0\<close>.\<close>

lemma valof_simps: "valof (dyadic 0 0) = 0" "valof (dyadic 1 0) = 1"
  by (simp_all add: dyadic_def)

lemma real_rotate_zero:
  "glm_rotate real_glm (glm_mat4 real_glm (dyadic 1 0)) (glm_radians real_glm (dyadic 0 0))
        (glm_vec3 real_glm (dyadic 1 0) (dyadic 0 0) (dyadic 0 0)) = glm_mat4 real_glm (dyadic 1 0)"
  "glm_rotate real_glm (glm_mat4 real_glm (dyadic 1 0)) (glm_radians real_glm (dyadic 0 0))
        (glm_vec3 real_glm (dyadic 0 0) (dyadic 1 0) (dyadic 0 0)) = glm_mat4 real_glm (dyadic 1 0)"
  by (simp_all add: real_glm_def valof_simps real_rotation_def real_mul_def real_diag_def dot_def column_def)

theorem mvp_composite_witness:
  "glm_rotate real_glm (glm_mat4 real_glm (dyadic 1 0)) (glm_radians real_glm (dyadic 0 0))
        (glm_vec3 real_glm (dyadic 1 0) (dyadic 0 0) (dyadic 0 0)) = glm_mat4 real_glm (dyadic 1 0) \<and>
   glm_rotate real_glm (glm_mat4 real_glm (dyadic 1 0)) (glm_radians real_glm (dyadic 0 0))
        (glm_vec3 real_glm (dyadic 0 0) (dyadic 1 0) (dyadic 0 0)) = glm_mat4 real_glm (dyadic 1 0) \<and>
   mvp real_glm example_projection example_view (dyadic 0 0) (dyadic 0 0) =
     [[2, 0, 0, 0], [0, 3, 0, 0], [0, 0, - 1, 14 / 5], [0, 0, - 1, 3]]"
proof -
  have "real_mul (real_mul example_projection example_view) (real_diag 1) =
     [[2, 0, 0, 0], [0, 3, 0, 0], [0, 0, - 1, 14 / 5], [0, 0, - 1, 3]]"
    by (simp add: real_mul_def real_diag_def dot_def column_def example_projection_def example_view_def)
  with mvp_composite [of real_glm example_projection example_view "dyadic 0 0" "dyadic 0 0"]
    real_rotate_zero
  show ?thesis
    by (simp add: real_glm_def valof_simps)
qed


section \<open>Properties of \<^verbatim>\<open>createShaderProgram\<close>\<close>

text \<open>What each of the four parts does to the context.\<close>

lemma compile_vertex_shader_eq:
  "compile_vertex_shader d src s =
     (next_name s,
      s\<lparr>shaders := (shaders s)(next_name s \<mapsto> compiled d GL_VERTEX_SHADER src False),
        next_name := next_name s + 1,
        cerr := cerr s @ report ''ERROR::SHADER::VERTEX::COMPILATION_FAILED''
                  (compiles d GL_VERTEX_SHADER src)\<rparr>)"
  by (simp add: compile_vertex_shader_def glCreateShader_def glShaderSource_def glCompileShader_def
      glGetShaderiv_COMPILE_STATUS_def glGetShaderInfoLog_def print_cerr_def compiled_def report_def
      Let_def split: prod.splits)


lemma compile_fragment_shader_eq:
  "compile_fragment_shader d src s =
     (next_name s,
      s\<lparr>shaders := (shaders s)(next_name s \<mapsto> compiled d GL_FRAGMENT_SHADER src False),
        next_name := next_name s + 1,
        cerr := cerr s @ report ''ERROR::SHADER::FRAGMENT::COMPILATION_FAILED''
                  (compiles d GL_FRAGMENT_SHADER src)\<rparr>)"
  by (simp add: compile_fragment_shader_def glCreateShader_def glShaderSource_def
      glCompileShader_def glGetShaderiv_COMPILE_STATUS_def glGetShaderInfoLog_def print_cerr_def
      compiled_def report_def Let_def split: prod.splits)

lemma link_shaders_eq:
  assumes "shaders s v = Some a" "shaders s f = Some b"
  shows "link_shaders d v f s =
     (next_name s,
      s\<lparr>programs := (programs s)(next_name s \<mapsto>
             \<lparr>attached = [v, f], link_status = fst (links d [a, b]),
              program_info_log = snd (links d [a, b])\<rparr>),
        next_name := next_name s + 1,
        cerr := cerr s @ report ''ERROR::SHADER::PROGRAM::LINKING_FAILED'' (links d [a, b])\<rparr>)"
  using assms
  by (simp add: link_shaders_def glCreateProgram_def glAttachShader_def glLinkProgram_def
      glGetProgramiv_LINK_STATUS_def glGetProgramInfoLog_def print_cerr_def report_def
      List.map_filter_simps Let_def split: prod.splits)

lemma is_attachedI:
  "programs s p = Some ob \<Longrightarrow> sh \<in> set (attached ob) \<Longrightarrow> p < next_name s \<Longrightarrow> is_attached sh s"
  unfolding is_attached_def list_ex_iff
  by (rule bexI [of _ p]) simp_all

lemma clean_up_eq:
  assumes "programs s p = Some ob" "attached ob = [v, f]" "p < next_name s"
    and "shaders s v = Some a" "shaders s f = Some b" "v \<noteq> f"
  shows "clean_up v f s =
     s\<lparr>shaders := (shaders s)(v \<mapsto> a\<lparr>delete_status := True\<rparr>, f \<mapsto> b\<lparr>delete_status := True\<rparr>)\<rparr>"
proof -
  have av: "is_attached v s" and af: "is_attached f s"
    using assms(1-3) by (auto intro: is_attachedI)
  let ?s1 = "s\<lparr>shaders := (shaders s)(v \<mapsto> a\<lparr>delete_status := True\<rparr>)\<rparr>"
  have s1: "glDeleteShader v s = ?s1"
    using av assms(4) by (simp add: glDeleteShader_def)
  have "is_attached f ?s1"
    using af by (simp add: is_attached_def)
  then have "glDeleteShader f ?s1 = ?s1\<lparr>shaders := (shaders ?s1)(f \<mapsto> b\<lparr>delete_status := True\<rparr>)\<rparr>"
    using assms(5,6) by (simp add: glDeleteShader_def)
  with s1 show ?thesis
    by (simp add: clean_up_def)
qed

text \<open>
  C8. Whatever the driver answers, \<^verbatim>\<open>createShaderProgram\<close> runs to its end and returns
  the name of a program object that has both shaders attached and has been linked (its
  link status is the driver's answer). A stage that fails to compile adds its header line
  and the stage's info log (the first 511 characters, the size of the buffer) to
  \<^verbatim>\<open>std::cerr\<close>, and the function goes on; a failed link is reported likewise. In the end
  both shader objects are deleted: being attached to the program, they are flagged for
  deletion, whatever the compile and link statuses.
\<close>

theorem createShaderProgram_logs_and_releases:
  "createShaderProgram d vs fs s =
     (let v = next_name s; f = next_name s + 1; p = next_name s + 2;
          l = links d [compiled d GL_VERTEX_SHADER vs False, compiled d GL_FRAGMENT_SHADER fs False]
      in (p,
          s\<lparr>shaders := (shaders s)
               (v \<mapsto> compiled d GL_VERTEX_SHADER vs True, f \<mapsto> compiled d GL_FRAGMENT_SHADER fs True),
            programs := (programs s)
               (p \<mapsto> \<lparr>attached = [v, f], link_status = fst l, program_info_log = snd l\<rparr>),
            next_name := next_name s + 3,
            cerr := cerr s
              @ report ''ERROR::SHADER::VERTEX::COMPILATION_FAILED'' (compiles d GL_VERTEX_SHADER vs)
              @ report ''ERROR::SHADER::FRAGMENT::COMPILATION_FAILED'' (compiles d GL_FRAGMENT_SHADER fs)
              @ report ''ERROR::SHADER::PROGRAM::LINKING_FAILED'' l\<rparr>))"
proof -
  define v where "v = next_name s"
  define a where "a = compiled d GL_VERTEX_SHADER vs False"
  define b where "b = compiled d GL_FRAGMENT_SHADER fs False"
  define s1 where "s1 = s\<lparr>shaders := (shaders s)(v \<mapsto> a), next_name := v + 1,
      cerr := cerr s @ report ''ERROR::SHADER::VERTEX::COMPILATION_FAILED''
                (compiles d GL_VERTEX_SHADER vs)\<rparr>"
  define s2 where "s2 = s1\<lparr>shaders := (shaders s1)(v + 1 \<mapsto> b), next_name := v + 2,
      cerr := cerr s1 @ report ''ERROR::SHADER::FRAGMENT::COMPILATION_FAILED''
                (compiles d GL_FRAGMENT_SHADER fs)\<rparr>"
  define ob where "ob = \<lparr>attached = [v, v + 1], link_status = fst (links d [a, b]),
      program_info_log = snd (links d [a, b])\<rparr>"
  define s3 where "s3 = s2\<lparr>programs := (programs s2)(v + 2 \<mapsto> ob), next_name := v + 3,
      cerr := cerr s2 @ report ''ERROR::SHADER::PROGRAM::LINKING_FAILED'' (links d [a, b])\<rparr>"
  have c1: "compile_vertex_shader d vs s = (v, s1)"
    by (simp add: compile_vertex_shader_eq v_def a_def s1_def)
  have c2: "compile_fragment_shader d fs s1 = (v + 1, s2)"
    by (simp add: compile_fragment_shader_eq s1_def s2_def b_def)
  have "shaders s2 v = Some a" "shaders s2 (v + 1) = Some b"
    by (simp_all add: s2_def s1_def)
  from link_shaders_eq [OF this, of d] have c3: "link_shaders d v (v + 1) s2 = (v + 2, s3)"
    by (simp add: s3_def ob_def s2_def s1_def)
  have "programs s3 (v + 2) = Some ob" "attached ob = [v, v + 1]" "v + 2 < next_name s3"
    "shaders s3 v = Some a" "shaders s3 (v + 1) = Some b" "v \<noteq> v + 1"
    by (simp_all add: s3_def s2_def s1_def ob_def)
  from clean_up_eq [OF this] have c4: "clean_up v (v + 1) s3 =
     s3\<lparr>shaders := (shaders s3)(v \<mapsto> a\<lparr>delete_status := True\<rparr>, v + 1 \<mapsto> b\<lparr>delete_status := True\<rparr>)\<rparr>" .
  have "createShaderProgram d vs fs s = (v + 2, clean_up v (v + 1) s3)"
    by (simp only: createShaderProgram_def c1 c2 c3 prod.case)
  also have "clean_up v (v + 1) s3 =
      s\<lparr>shaders := (shaders s)
               (v \<mapsto> compiled d GL_VERTEX_SHADER vs True, v + 1 \<mapsto> compiled d GL_FRAGMENT_SHADER fs True),
            programs := (programs s)(v + 2 \<mapsto> ob),
            next_name := v + 3,
            cerr := cerr s
              @ report ''ERROR::SHADER::VERTEX::COMPILATION_FAILED'' (compiles d GL_VERTEX_SHADER vs)
              @ report ''ERROR::SHADER::FRAGMENT::COMPILATION_FAILED'' (compiles d GL_FRAGMENT_SHADER fs)
              @ report ''ERROR::SHADER::PROGRAM::LINKING_FAILED'' (links d [a, b])\<rparr>"
    unfolding c4 by (simp add: s3_def s2_def s1_def a_def b_def compiled_def fun_upd_twist)
  finally show ?thesis
    by (simp add: Let_def v_def ob_def a_def b_def)
qed


section \<open>Properties of \<^verbatim>\<open>loadFont\<close>\<close>

text \<open>The calls that do not get as far as the bake.\<close>

lemma loadFont_not_opened:
  "fopen path = None \<Longrightarrow> loadFont fopen new_array bake path g = Undefined_behaviour"
  by (simp add: loadFont_def)

lemma loadFont_new_throws:
  "fopen path = Some f \<Longrightarrow> ftell_end f < 0 \<or> new_array (ftell_end f) = None
     \<Longrightarrow> loadFont fopen new_array bake path g = Throws"
  by (auto simp: loadFont_def Let_def)

text \<open>
  C9, as the code has it. When the font file is opened, \<^verbatim>\<open>ftell\<close> gives a size that is not
  negative and \<^verbatim>\<open>new\<close> gives the buffer, \<^verbatim>\<open>loadFont\<close> does not fail: it returns normally with
  the table and the bitmap of the bake uploaded, whatever \<^verbatim>\<open>stbtt_BakeFontBitmap\<close>
  returned, also when that says the glyphs did not fit.
\<close>

theorem loadFont_unchecked:
  assumes "fopen path = Some f" and "0 \<le> ftell_end f" and "new_array (ftell_end f) = Some fresh"
  shows "loadFont fopen new_array bake path g =
     (let r = bake (fread f (ftell_end f) fresh) 0 (dyadic 48 0) 512 512 32 96 (charData g)
      in Returns (g\<lparr>charData := snd (snd r),
                    fontTexture := Some \<lparr>tex_width = 512, tex_height = 512,
                                          tex_pixels = fst (snd r), tex_linear = True\<rparr>,
                    textVBO_bytes := Some 96\<rparr>))"
  using assms by (simp add: loadFont_def Let_def split: prod.split)

lemma example_buffer: "fread example_file 4 (replicate 4 0) = [0, 1, 0, 0]"
  by (simp add: fread_def example_file_def)

lemma example_bake_result:
  "example_bake data offset pixel_height 512 512 first_char num_chars (replicate 96 0) =
     (- 10, replicate 262144 0, [10, 11, 12, 13, 14, 15, 16, 10, 11, 12] @ replicate 86 0)"
  by (simp add: example_bake_def)

theorem loadFont_unchecked_witness:
  "example_fopen ''arial.ttf'' = Some example_file \<and>
   0 \<le> ftell_end example_file \<and>
   example_new_array (ftell_end example_file) = Some (replicate 4 0) \<and>
   fst (example_bake (fread example_file (ftell_end example_file) (replicate 4 0))
          0 (dyadic 48 0) 512 512 32 96 (charData example_globals)) = - 10 \<and>
   loadFont example_fopen example_new_array example_bake ''arial.ttf'' example_globals =
     Returns \<lparr>charData = [10, 11, 12, 13, 14, 15, 16, 10, 11, 12] @ replicate 86 0,
              fontTexture = Some \<lparr>tex_width = 512, tex_height = 512,
                                    tex_pixels = replicate 262144 0, tex_linear = True\<rparr>,
              textVBO_bytes = Some 96\<rparr>"
proof -
  have o: "example_fopen ''arial.ttf'' = Some example_file"
    by (simp add: example_fopen_def)
  have z: "0 \<le> ftell_end example_file" and e: "ftell_end example_file = 4"
    by (simp_all add: example_file_def)
  have n: "example_new_array (ftell_end example_file) = Some (replicate 4 0)"
    by (simp add: example_new_array_def e)
  from loadFont_unchecked
      [of example_fopen "''arial.ttf''" example_file example_new_array "replicate 4 0"
        example_bake example_globals] o z n
  show ?thesis
    by (simp add: e example_buffer example_bake_result example_globals_def)
qed

text \<open>
  C9 as stated asks for \<open>BakeOverflowError\<close> when the glyphs do not fit and for
  \<open>FontLoadError\<close> when the file cannot be opened. With a file that opens and a bake that
  returns \<open>-10\<close> (only ten glyphs fitted) \<^verbatim>\<open>loadFont\<close> does not fail: it returns normally,
  with a table of which ten entries are baked, and the atlas uploaded. With no file at the
  path the call is undefined (a null \<^verbatim>\<open>FILE*\<close> reaches \<^verbatim>\<open>fseek\<close>); no error is reported.
\<close>

theorem loadFont_reports_no_error:
  "fst (example_bake [0, 1, 0, 0] 0 (dyadic 48 0) 512 512 32 96 (charData example_globals)) < 0 \<and>
   loadFont example_fopen example_new_array example_bake ''arial.ttf'' example_globals =
     Returns \<lparr>charData = [10, 11, 12, 13, 14, 15, 16, 10, 11, 12] @ replicate 86 0,
              fontTexture = Some \<lparr>tex_width = 512, tex_height = 512,
                                    tex_pixels = replicate 262144 0, tex_linear = True\<rparr>,
              textVBO_bytes = Some 96\<rparr> \<and>
   loadFont Map.empty example_new_array example_bake ''arial.ttf'' example_globals
     = Undefined_behaviour"
  by (simp add: loadFont_def example_fopen_def example_file_def example_new_array_def
      fread_def example_bake_def example_globals_def)

section \<open>Properties of the render loop\<close>












end
